theory Spec2Isabelle
  imports Main
begin

section \<open>Documents, requests and responses\<close>

text \<open>
  The authentication handlers of \<^verbatim>\<open>src/controllers/auth.controller.ts\<close> work on two
  document collections, \<^verbatim>\<open>User\<close> and \<^verbatim>\<open>Token\<close>. A collection is a list of documents in
  insertion order. A Token document keeps exactly the fields the handler passes to the
  store: the schema files of the two models are not among the sources, so no field is
  renamed or defaulted on the way in, and a query compares the stored value with the
  value of the filter as it is. Users are written by \<^verbatim>\<open>userService.createUser\<close>, which
  is modelled below from the data model of the spec.

  Values that a request body may leave out are \<open>string option\<close>: \<open>None\<close> is JavaScript's
  \<^verbatim>\<open>undefined\<close>.
\<close>

type_synonym oid = string

text \<open>Only \<^verbatim>\<open>UserType.USER\<close> occurs in the handlers; the other members follow the role flags.\<close>

datatype UserType = SUPER | ADMIN | MERCHANT | USER | GUEST

record user_doc =
  u_id :: oid
  u_firstName :: "string option"
  u_lastName :: "string option"
  u_email :: "string option"
  u_password :: "string option"
  u_username :: string
  u_userType :: UserType
  u_role :: UserType
  u_isUser :: bool
  u_isGuest :: bool
  u_isSuper :: bool
  u_isAdmin :: bool
  u_isMerchant :: bool

text \<open>
  A Token document. The handlers write the owner under two different keys:
  \<^verbatim>\<open>Token.create({ token, user, expiresAt })\<close> in \<^verbatim>\<open>login\<close> and
  \<^verbatim>\<open>Token.create({ userId, token })\<close> in \<^verbatim>\<open>forgotPassword\<close>; both keys are fields here.
  \<open>t_expiresAt\<close> is in milliseconds since the epoch, as \<^verbatim>\<open>Date.now()\<close> is.
\<close>

record token_doc =
  t_userId :: "oid option"
  t_user :: "oid option"
  t_token :: "string option"
  t_expiresAt :: "nat option"

text \<open>Every call that may reach a store is recorded, in the order it is made.\<close>

datatype event =
    Svc_validateRegister
  | Svc_validateLogin
  | Svc_createUser
  | Svc_sendPasswordForgotEmail
  | User_findOne_email "string option"
  | User_findOne_id oid
  | User_findById oid
  | User_save oid
  | Token_findOne_userId oid
  | Token_create
  | Token_save nat

record state =
  users :: "user_doc list"
  tokens :: "token_doc list"
  oplog :: "event list"

record RegisterDTO =
  rb_email :: "string option"
  rb_password :: "string option"
  rb_firstName :: "string option"
  rb_lastName :: "string option"

record login_body =
  lb_email :: "string option"
  lb_password :: "string option"

record forgot_body =
  fb_email :: "string option"

record change_body =
  cb_oldPassword :: "string option"
  cb_newPassword :: "string option"

text \<open>The result objects of the services: \<^verbatim>\<open>{ error, code, message, data }\<close>.\<close>

record validate_result =
  v_error :: bool
  v_code :: nat
  v_message :: string

record login_data =
  d_id :: oid
  d_token :: "string option"
  d_email :: "string option"

record login_validate =
  lv_error :: bool
  lv_code :: nat
  lv_message :: string
  lv_data :: login_data

record email_result =
  er_error :: bool
  er_code :: nat
  er_message :: string

text \<open>
  \<^verbatim>\<open>authMapper.mapRegisteredUser\<close> is applied to a user document in \<^verbatim>\<open>register\<close> and to
  \<^verbatim>\<open>validate.data\<close> in \<^verbatim>\<open>login\<close>.
\<close>

datatype mapper_arg = OfUser user_doc | OfLoginData login_data

type_synonym projection = "(string \<times> string) list"

datatype payload =
    NoData
  | EmptyObject
  | Mapped projection
  | MappedWithToken projection "string option"

record envelope =
  e_error :: bool
  e_errors :: "string list"
  e_data :: payload
  e_message :: string
  e_status :: nat

text \<open>
  A handler ends either with \<^verbatim>\<open>next(new ErrorResponse(message, statusCode, errors))\<close> or
  with \<^verbatim>\<open>res.status(n).json(envelope)\<close>.
\<close>

datatype response =
    ErrorResponse string nat "string list"
  | Json nat envelope

fun status_code :: "response \<Rightarrow> nat" where
  "status_code (ErrorResponse m c es) = c"
| "status_code (Json c b) = c"

text \<open>
  The collaborators that are not among the sources, as one record of functions: the
  services, the model methods, the clock and the process environment. A handler call
  gets the record that describes them for that request.
\<close>

record env =
  validateRegister :: "RegisterDTO \<Rightarrow> validate_result"
  validateLogin :: "login_body \<Rightarrow> login_validate"
  generateRandomChars :: "nat \<Rightarrow> string"
  new_id :: oid
  hashPassword :: "string option \<Rightarrow> string option"
  matchPassword :: "user_doc \<Rightarrow> string option \<Rightarrow> bool"
  checkPassword :: "string option \<Rightarrow> bool"
  validateEmail :: "string option \<Rightarrow> bool"
  generateToken :: "oid \<Rightarrow> string \<Rightarrow> string \<Rightarrow> nat \<Rightarrow> string"
  sendPasswordForgotEmail :: "string option \<Rightarrow> string \<Rightarrow> email_result"
  mapRegisteredUser :: "mapper_arg \<Rightarrow> projection"
  CLIENT_URL :: string
  TOKEN_SECRET :: string
  Date_now :: nat

section \<open>JavaScript values\<close>

text \<open>\<^verbatim>\<open>!s\<close> for a string that may be missing: true for \<^verbatim>\<open>undefined\<close> and for \<^verbatim>\<open>""\<close>.\<close>

definition falsy :: "string option \<Rightarrow> bool" where
  "falsy s = (case s of None \<Rightarrow> True | Some v \<Rightarrow> v = [])"

text \<open>\<^verbatim>\<open>String.prototype.toLowerCase\<close> on the ASCII letters.\<close>

definition toLowerCase_char :: "char \<Rightarrow> char" where
  "toLowerCase_char c =
     (case map_of (zip ''ABCDEFGHIJKLMNOPQRSTUVWXYZ'' ''abcdefghijklmnopqrstuvwxyz'') c of
        Some l \<Rightarrow> l
      | None \<Rightarrow> c)"

definition toLowerCase :: "string \<Rightarrow> string" where
  "toLowerCase s = map toLowerCase_char s"

section \<open>Store operations\<close>

fun find_index_of :: "('a \<Rightarrow> bool) \<Rightarrow> 'a list \<Rightarrow> nat option" where
  "find_index_of P [] = None"
| "find_index_of P (x # xs) =
     (if P x then Some 0 else map_option Suc (find_index_of P xs))"

definition logged :: "event \<Rightarrow> state \<Rightarrow> state" where
  "logged ev st = st\<lparr>oplog := oplog st @ [ev]\<rparr>"

text \<open>\<^verbatim>\<open>User.findOne({ email })\<close>: the first user whose email is the filter's value.\<close>

definition User_findOne_by_email :: "user_doc list \<Rightarrow> string option \<Rightarrow> user_doc option" where
  "User_findOne_by_email us email = find (\<lambda>u. u_email u = email) us"

text \<open>\<^verbatim>\<open>User.findOne({ _id })\<close> and \<^verbatim>\<open>User.findById\<close>: the position of the user with that id.\<close>

definition User_find_by_id :: "user_doc list \<Rightarrow> oid \<Rightarrow> nat option" where
  "User_find_by_id us i = find_index_of (\<lambda>u. u_id u = i) us"

text \<open>\<^verbatim>\<open>Token.findOne({ userId })\<close>: the position of the first Token whose \<^verbatim>\<open>userId\<close> is the id.\<close>

definition Token_findOne_by_userId :: "token_doc list \<Rightarrow> oid \<Rightarrow> nat option" where
  "Token_findOne_by_userId ts i = find_index_of (\<lambda>t. t_userId t = Some i) ts"

definition Token_create_doc :: "token_doc \<Rightarrow> state \<Rightarrow> state" where
  "Token_create_doc d st = logged Token_create (st\<lparr>tokens := tokens st @ [d]\<rparr>)"

text \<open>
  Modelled from the spec: \<^verbatim>\<open>userService.createUser\<close> and the User schema are not among
  the sources. The data model of the spec has a User's email unique and lower-cased, the
  uniqueness enforced at write time, and the password stored as a one-way hash. So the
  write lower-cases the email, and it is refused when a stored user already has that
  email; the refusal is an exception of the store, which leaves the handler uncaught. The
  id is the one the store assigns.
\<close>

datatype store_error = DuplicateEmail

definition createUser ::
  "env \<Rightarrow> user_doc \<Rightarrow> state \<Rightarrow> (store_error + user_doc) \<times> state" where
  "createUser e u st =
     (let user = u\<lparr>u_id := new_id e,
                   u_email := map_option toLowerCase (u_email u),
                   u_password := hashPassword e (u_password u)\<rparr>;
          st1 = logged Svc_createUser st
      in if list_ex (\<lambda>x. u_email x = u_email user) (users st)
         then (Inl DuplicateEmail, st1)
         else (Inr user, st1\<lparr>users := users st1 @ [user]\<rparr>))"

section \<open>The handlers\<close>

text \<open>
  \<open>Inr\<close> is the response the handler sends; \<open>Inl\<close> is an exception thrown inside it, which
  \<^verbatim>\<open>asyncHandler\<close> hands to the error middleware.
\<close>

definition register ::
  "env \<Rightarrow> state \<Rightarrow> RegisterDTO \<Rightarrow> (store_error + response) \<times> state" where
  "register e st body =
     (let email = rb_email body;
          password = rb_password body;
          firstName = rb_firstName body;
          lastName = rb_lastName body;
          body' = (if \<not> falsy (rb_email body)
                   then body\<lparr>rb_email := map_option toLowerCase (rb_email body)\<rparr>
                   else body);
          validate = validateRegister e body';
          st1 = logged Svc_validateRegister st
      in if v_error validate
         then (Inr (ErrorResponse ''Error'' (v_code validate) [v_message validate]), st1)
         else
           (let existUser = User_findOne_by_email (users st1) email;
                st2 = logged (User_findOne_email email) st1
            in case existUser of
                 Some x \<Rightarrow>
                   (Inr (ErrorResponse ''Error'' 403
                           [''User already exists, use another email'']), st2)
               | None \<Rightarrow>
                   (let username = generateRandomChars e 24;
                        (created, st3) = createUser e
                          \<lparr>u_id = [], u_firstName = firstName, u_lastName = lastName,
                           u_email = email, u_password = password, u_username = username,
                           u_userType = USER, u_role = USER, u_isUser = True,
                           u_isGuest = False, u_isSuper = False, u_isAdmin = False,
                           u_isMerchant = False\<rparr> st2
                    in case created of
                         Inl thrown \<Rightarrow> (Inl thrown, st3)
                       | Inr user \<Rightarrow>
                           (let mapped = mapRegisteredUser e (OfUser user)
                            in (Inr (Json 200
                                       \<lparr>e_error = False, e_errors = [], e_data = Mapped mapped,
                                        e_message = ''User registered successfully.'',
                                        e_status = 200\<rparr>), st3)))))"

text \<open>
  The token step of \<^verbatim>\<open>login\<close> (lines 93 to 111): overwrite the Token found by
  \<^verbatim>\<open>userId\<close>, or create one under \<^verbatim>\<open>user\<close>; \<open>Inl\<close> is the early return.
\<close>

definition login_token_step ::
  "env \<Rightarrow> login_data \<Rightarrow> state \<Rightarrow> (response \<times> state) + state" where
  "login_token_step e d st =
     (let authToken = Token_findOne_by_userId (tokens st) (d_id d);
          st1 = logged (Token_findOne_userId (d_id d)) st
      in case authToken of
           Some i \<Rightarrow>
             Inr (logged (Token_save i)
                    (st1\<lparr>tokens := (tokens st1)[i := (tokens st1 ! i)\<lparr>t_token := d_token d\<rparr>]\<rparr>))
         | None \<Rightarrow>
             if falsy (d_token d)
             then Inl (ErrorResponse ''Token generation failed'' 500 [], st1)
             else Inr (Token_create_doc
                         \<lparr>t_userId = None, t_user = Some (d_id d), t_token = d_token d,
                          t_expiresAt = Some (Date_now e + 3600 * 1000)\<rparr> st1))"

definition login :: "env \<Rightarrow> state \<Rightarrow> login_body \<Rightarrow> response \<times> state" where
  "login e st body =
     (if falsy (lb_email body) \<or> falsy (lb_password body)
      then (ErrorResponse ''Email and password are required'' 400 [], st)
      else
        (let body' = body\<lparr>lb_email := map_option toLowerCase (lb_email body)\<rparr>;
             validate = validateLogin e body';
             st1 = logged Svc_validateLogin st
         in if lv_error validate
            then (ErrorResponse ''Error'' (lv_code validate) [lv_message validate], st1)
            else
              (case login_token_step e (lv_data validate) st1 of
                 Inl early \<Rightarrow> early
               | Inr st2 \<Rightarrow>
                   (let user = User_find_by_id (users st2) (d_id (lv_data validate));
                        st3 = logged (User_findOne_id (d_id (lv_data validate))) st2
                    in case user of
                         None \<Rightarrow> (ErrorResponse ''User not found'' 404 [], st3)
                       | Some i \<Rightarrow>
                           (let mappedData = mapRegisteredUser e (OfLoginData (lv_data validate))
                            in (Json 200
                                  \<lparr>e_error = False, e_errors = [],
                                   e_data = MappedWithToken mappedData (d_token (lv_data validate)),
                                   e_message = ''User login successful'', e_status = 200\<rparr>,
                                st3))))))"

definition logout :: "env \<Rightarrow> state \<Rightarrow> response \<times> state" where
  "logout e st =
     (Json 200 \<lparr>e_error = False, e_errors = [], e_data = NoData,
                e_message = ''User logged out successfully.'', e_status = 200\<rparr>, st)"

text \<open>
  The reset token and the reset URL of \<^verbatim>\<open>forgotPassword\<close> (lines 167 to 174) for the user
  found.
\<close>

definition resetToken_for :: "env \<Rightarrow> user_doc \<Rightarrow> string" where
  "resetToken_for e u = generateToken e (u_id u) ''forgotPassword'' (TOKEN_SECRET e) 900"

definition resetUrl_for :: "env \<Rightarrow> user_doc \<Rightarrow> string" where
  "resetUrl_for e u =
     CLIENT_URL e @ ''/forgot-password?token='' @ resetToken_for e u @ ''&id='' @ u_id u"

definition forgotPassword :: "env \<Rightarrow> state \<Rightarrow> forgot_body \<Rightarrow> response \<times> state" where
  "forgotPassword e st body =
     (let email = fb_email body
      in if \<not> validateEmail e email
         then (ErrorResponse ''Invalid email format.'' 400 [], st)
         else
           (let user = User_findOne_by_email (users st) email;
                st1 = logged (User_findOne_email email) st
            in case user of
                 None \<Rightarrow>
                   (ErrorResponse ''Error'' 404 [''User with this email does not exist''], st1)
               | Some u \<Rightarrow>
                   (let resetToken = resetToken_for e u;
                        st2 = Token_create_doc
                                \<lparr>t_userId = Some (u_id u), t_user = None,
                                 t_token = Some resetToken, t_expiresAt = None\<rparr> st1;
                        resetUrl = resetUrl_for e u;
                        emailResult = sendPasswordForgotEmail e (u_email u) resetUrl;
                        st3 = logged Svc_sendPasswordForgotEmail st2
                    in if er_error emailResult
                       then (ErrorResponse ''Error'' (er_code emailResult)
                               [er_message emailResult], st3)
                       else (Json 200
                               \<lparr>e_error = False, e_errors = [], e_data = EmptyObject,
                                e_message = ''Forgot Password link sent to your email'',
                                e_status = 200\<rparr>, st3))))"

text \<open>\<open>userId\<close> is \<^verbatim>\<open>req.user.id\<close>, set by the authentication middleware.\<close>

definition changePassword :: "env \<Rightarrow> state \<Rightarrow> oid \<Rightarrow> change_body \<Rightarrow> response \<times> state" where
  "changePassword e st userId body =
     (let oldPassword = cb_oldPassword body;
          newPassword = cb_newPassword body;
          found = User_find_by_id (users st) userId;
          st1 = logged (User_findById userId) st
      in case found of
           None \<Rightarrow> (ErrorResponse ''User not found'' 404 [], st1)
         | Some i \<Rightarrow>
             (let user = users st1 ! i
              in if \<not> matchPassword e user oldPassword
                 then (ErrorResponse ''Old password is incorrect'' 400 [], st1)
                 else if \<not> checkPassword e newPassword
                 then (ErrorResponse
                         ''password must contain, 1 uppercase letter, one special character, one number and must be greater than 8 characters''
                         400 [], st1)
                 else
                   (Json 200
                      \<lparr>e_error = False, e_errors = [], e_data = EmptyObject,
                       e_message = ''Password changed successfully'', e_status = 200\<rparr>,
                    logged (User_save userId)
                      (st1\<lparr>users := (users st1)
                               [i := user\<lparr>u_password := hashPassword e newPassword\<rparr>]\<rparr>))))"

section \<open>The password policy and a sample deployment\<close>

text \<open>
  Modelled from the spec: \<^verbatim>\<open>userService.checkPassword\<close> is not among the sources. The spec
  has it accept a password that exceeds 8 characters and contains at least one uppercase
  letter, one digit and one special character; a special character is taken to be one
  that is neither an ASCII letter nor a digit.
\<close>

definition is_upper :: "char \<Rightarrow> bool" where
  "is_upper c = (c \<in> set ''ABCDEFGHIJKLMNOPQRSTUVWXYZ'')"

definition is_lower :: "char \<Rightarrow> bool" where
  "is_lower c = (c \<in> set ''abcdefghijklmnopqrstuvwxyz'')"

definition is_digit :: "char \<Rightarrow> bool" where
  "is_digit c = (c \<in> set ''0123456789'')"

definition is_special :: "char \<Rightarrow> bool" where
  "is_special c = (\<not> is_upper c \<and> \<not> is_lower c \<and> \<not> is_digit c)"

definition checkPassword_policy :: "string option \<Rightarrow> bool" where
  "checkPassword_policy p =
     (case p of
        None \<Rightarrow> False
      | Some s \<Rightarrow> 8 < length s \<and> list_ex is_upper s \<and> list_ex is_digit s
                   \<and> list_ex is_special s)"

text \<open>
  A store with one registered user, and collaborators that accept this user's
  credentials. \<open>tok\<close> is the token the services issue during the request and \<open>now\<close> the
  clock; the mail service of \<open>sample_env\<close> delivers, that of \<open>sample_env_mail_down\<close>
  reports a failure.
\<close>

definition sample_user :: user_doc where
  "sample_user =
     \<lparr>u_id = ''u1'', u_firstName = Some ''Ada'', u_lastName = Some ''Obi'',
      u_email = Some ''a@b.com'', u_password = Some ''hash:Secret1!'',
      u_username = ''ada'', u_userType = USER, u_role = USER, u_isUser = True,
      u_isGuest = False, u_isSuper = False, u_isAdmin = False, u_isMerchant = False\<rparr>"

definition sample_state :: state where
  "sample_state = \<lparr>users = [sample_user], tokens = [], oplog = []\<rparr>"

definition sample_env :: "string \<Rightarrow> nat \<Rightarrow> env" where
  "sample_env tok now =
     \<lparr>validateRegister =
        (\<lambda>b. if falsy (rb_email b) \<or> falsy (rb_password b)
              then \<lparr>v_error = True, v_code = 400, v_message = ''email and password are required''\<rparr>
              else \<lparr>v_error = False, v_code = 200, v_message = []\<rparr>),
      validateLogin =
        (\<lambda>b. if lb_email b = Some ''a@b.com'' \<and> lb_password b = Some ''Secret1!''
              then \<lparr>lv_error = False, lv_code = 200, lv_message = [],
                    lv_data = \<lparr>d_id = ''u1'', d_token = Some tok, d_email = lb_email b\<rparr>\<rparr>
              else \<lparr>lv_error = True, lv_code = 400, lv_message = ''invalid credentials'',
                    lv_data = \<lparr>d_id = [], d_token = None, d_email = None\<rparr>\<rparr>),
      generateRandomChars = (\<lambda>n. replicate n (CHR ''x'')),
      new_id = ''u2'',
      hashPassword = map_option (\<lambda>p. ''hash:'' @ p),
      matchPassword = (\<lambda>u p. \<not> falsy p \<and> u_password u = map_option (\<lambda>p. ''hash:'' @ p) p),
      checkPassword = checkPassword_policy,
      validateEmail = (\<lambda>m. case m of None \<Rightarrow> False | Some s \<Rightarrow> CHR ''@'' \<in> set s),
      generateToken = (\<lambda>uid purpose secret ttl. tok),
      sendPasswordForgotEmail =
        (\<lambda>addr url. \<lparr>er_error = False, er_code = 200, er_message = ''sent''\<rparr>),
      mapRegisteredUser = (\<lambda>a. []),
      CLIENT_URL = ''https://shop.example'',
      TOKEN_SECRET = ''secret'',
      Date_now = now\<rparr>"

definition sample_env_mail_down :: "string \<Rightarrow> nat \<Rightarrow> env" where
  "sample_env_mail_down tok now =
     (sample_env tok now)
       \<lparr>sendPasswordForgotEmail :=
          (\<lambda>addr url. \<lparr>er_error = True, er_code = 502, er_message = ''mail service unavailable''\<rparr>)\<rparr>"

text \<open>The Token documents that name a user as their owner, under either key.\<close>

definition tokens_of :: "oid \<Rightarrow> token_doc list \<Rightarrow> token_doc list" where
  "tokens_of uid ts = filter (\<lambda>t. t_user t = Some uid \<or> t_userId t = Some uid) ts"

text \<open>
  Consecutive logins: each request comes with its own collaborators (the token issued
  and the clock differ from one request to the next).
\<close>

fun login_all :: "state \<Rightarrow> (env \<times> login_body) list \<Rightarrow> state" where
  "login_all st [] = st"
| "login_all st (r # rs) = login_all (snd (login (fst r) st (snd r))) rs"

text \<open>
  A request that passes the presence check and whose validation succeeds for the user
  \<open>uid\<close> with a non-empty token.
\<close>

definition login_validated_for :: "oid \<Rightarrow> env \<times> login_body \<Rightarrow> bool" where
  "login_validated_for uid r =
     (let v = validateLogin (fst r)
                ((snd r)\<lparr>lb_email := map_option toLowerCase (lb_email (snd r))\<rparr>)
      in \<not> falsy (lb_email (snd r)) \<and> \<not> falsy (lb_password (snd r)) \<and> \<not> lv_error v
         \<and> d_id (lv_data v) = uid \<and> \<not> falsy (d_token (lv_data v)))"

definition sample_login :: login_body where
  "sample_login = \<lparr>lb_email = Some ''A@b.com'', lb_password = Some ''Secret1!''\<rparr>"

text \<open>
  Two stores from which the sample user has been deleted: one with no Token, one that
  still holds the reset Token of an earlier forgot-password request of that user.
\<close>

definition vanished_state :: state where
  "vanished_state = \<lparr>users = [], tokens = [], oplog = []\<rparr>"

definition vanished_state_reset :: state where
  "vanished_state_reset =
     \<lparr>users = [],
      tokens = [\<lparr>t_userId = Some ''u1'', t_user = None, t_token = Some ''rst0'',
                 t_expiresAt = None\<rparr>],
      oplog = []\<rparr>"

section \<open>Facts about the store operations\<close>

lemmas handler_defs =
  login_def login_token_step_def register_def forgotPassword_def changePassword_def
  createUser_def resetToken_for_def resetUrl_for_def
  Token_findOne_by_userId_def Token_create_doc_def User_find_by_id_def
  User_findOne_by_email_def logged_def tokens_of_def
  falsy_def toLowerCase_def toLowerCase_char_def Let_def

lemmas sample_defs =
  sample_env_def sample_env_mail_down_def sample_state_def sample_user_def sample_login_def
  vanished_state_def vanished_state_reset_def
  checkPassword_policy_def is_upper_def is_lower_def is_digit_def is_special_def

lemma find_index_of_bound:
  "find_index_of P xs = Some i \<Longrightarrow> i < length xs \<and> P (xs ! i)"
  by (induction xs arbitrary: i) (auto split: if_splits)

lemma find_index_of_None: "(find_index_of P xs = None) = (\<forall>x \<in> set xs. \<not> P x)"
  by (induction xs) auto

lemma find_index_of_snoc_None:
  "find_index_of P xs = None \<Longrightarrow> \<not> P d \<Longrightarrow> find_index_of P (xs @ [d]) = None"
  by (simp add: find_index_of_None)

section \<open>Login: the presence check\<close>

text \<open>
  Claim C6. A login request whose email or password is absent fails with a 400
  bad-request error, and the handler performs no Credential Store or Token Store
  operation: the returned state, with its log of calls, is the one it was given. The
  check of the source is \<^verbatim>\<open>!req.body.email || !req.body.password\<close>, which an empty
  string fails as an absent field does.
\<close>

theorem login_missing_credentials:
  "falsy (lb_email body) \<or> falsy (lb_password body) \<Longrightarrow>
   login e st body = (ErrorResponse ''Email and password are required'' 400 [], st)"
  by (simp add: login_def)

theorem login_missing_credentials_witness:
  "(falsy (lb_email \<lparr>lb_email = None, lb_password = Some ''Secret1!''\<rparr>)
      \<or> falsy (lb_password \<lparr>lb_email = None, lb_password = Some ''Secret1!''\<rparr>))
   \<and> login (sample_env ''tok1'' 1000) sample_state
        \<lparr>lb_email = None, lb_password = Some ''Secret1!''\<rparr>
      = (ErrorResponse ''Email and password are required'' 400 [], sample_state)"
  using login_missing_credentials
    [of "\<lparr>lb_email = None, lb_password = Some ''Secret1!''\<rparr>"
        "sample_env ''tok1'' 1000" sample_state]
  by (simp add: falsy_def)

section \<open>Login: the token step\<close>

text \<open>
  Claim C8. When the login validation succeeds and \<^verbatim>\<open>Token.findOne\<close> finds no Token for
  the user, the handler answers 500 exactly when the generated token is empty (and then
  leaves the Token collection as it was); otherwise it appends a Token whose expiry is
  the clock plus 3600 * 1000 milliseconds, that is one hour after issuance.
\<close>

theorem login_no_token_found:
  assumes "\<not> falsy (lb_email body)" and "\<not> falsy (lb_password body)"
      and "v = validateLogin e (body\<lparr>lb_email := map_option toLowerCase (lb_email body)\<rparr>)"
      and "\<not> lv_error v"
      and "Token_findOne_by_userId (tokens st) (d_id (lv_data v)) = None"
  shows "(status_code (fst (login e st body)) = 500) = falsy (d_token (lv_data v))
         \<and> (if falsy (d_token (lv_data v))
            then fst (login e st body) = ErrorResponse ''Token generation failed'' 500 []
                 \<and> tokens (snd (login e st body)) = tokens st
            else tokens (snd (login e st body)) =
                   tokens st @ [\<lparr>t_userId = None, t_user = Some (d_id (lv_data v)),
                                 t_token = d_token (lv_data v),
                                 t_expiresAt = Some (Date_now e + 3600 * 1000)\<rparr>])"
  using assms
  by (simp add: login_def login_token_step_def Let_def logged_def Token_create_doc_def
        split: option.splits)

theorem login_no_token_found_witness:
  "\<not> falsy (lb_email sample_login) \<and> \<not> falsy (lb_password sample_login)
   \<and> \<not> lv_error (validateLogin (sample_env ''tok1'' 1000)
                    (sample_login\<lparr>lb_email := map_option toLowerCase (lb_email sample_login)\<rparr>))
   \<and> Token_findOne_by_userId (tokens sample_state) ''u1'' = None
   \<and> status_code (fst (login (sample_env ''tok1'' 1000) sample_state sample_login)) \<noteq> 500
   \<and> tokens (snd (login (sample_env ''tok1'' 1000) sample_state sample_login)) =
       [\<lparr>t_userId = None, t_user = Some ''u1'', t_token = Some ''tok1'',
         t_expiresAt = Some 3601000\<rparr>]
   \<and> fst (login (sample_env [] 1000) sample_state sample_login) =
       ErrorResponse ''Token generation failed'' 500 []
   \<and> tokens (snd (login (sample_env [] 1000) sample_state sample_login)) = []"
  using login_no_token_found
          [of sample_login _ "sample_env ''tok1'' 1000" sample_state, OF _ _ refl]
        login_no_token_found
          [of sample_login _ "sample_env [] 1000" sample_state, OF _ _ refl]
  by (simp add: sample_defs falsy_def toLowerCase_def toLowerCase_char_def
        Token_findOne_by_userId_def)

text \<open>
  Claim C10. When the validation succeeds and the token step does not return early (a
  Token was found, or the issued token is not empty), but \<^verbatim>\<open>User.findOne({ _id })\<close> then
  finds no user, the handler answers 404 and the Token has already been written:
  overwritten in place when one was found (\<open>Token_save\<close>), appended otherwise
  (\<open>Token_create\<close>), in both cases before the user lookup in the log of calls.
\<close>

theorem login_user_vanished:
  assumes "\<not> falsy (lb_email body)" and "\<not> falsy (lb_password body)"
      and "v = validateLogin e (body\<lparr>lb_email := map_option toLowerCase (lb_email body)\<rparr>)"
      and "\<not> lv_error v"
      and "Token_findOne_by_userId (tokens st) (d_id (lv_data v)) \<noteq> None
           \<or> \<not> falsy (d_token (lv_data v))"
      and "User_find_by_id (users st) (d_id (lv_data v)) = None"
  shows "fst (login e st body) = ErrorResponse ''User not found'' 404 []
         \<and> (case Token_findOne_by_userId (tokens st) (d_id (lv_data v)) of
              Some i \<Rightarrow>
                tokens (snd (login e st body)) =
                  (tokens st)[i := (tokens st ! i)\<lparr>t_token := d_token (lv_data v)\<rparr>]
                \<and> oplog (snd (login e st body)) =
                    oplog st @ [Svc_validateLogin, Token_findOne_userId (d_id (lv_data v)),
                                Token_save i, User_findOne_id (d_id (lv_data v))]
            | None \<Rightarrow>
                tokens (snd (login e st body)) =
                  tokens st @ [\<lparr>t_userId = None, t_user = Some (d_id (lv_data v)),
                                t_token = d_token (lv_data v),
                                t_expiresAt = Some (Date_now e + 3600 * 1000)\<rparr>]
                \<and> oplog (snd (login e st body)) =
                    oplog st @ [Svc_validateLogin, Token_findOne_userId (d_id (lv_data v)),
                                Token_create, User_findOne_id (d_id (lv_data v))])"
  using assms
  by (auto simp: login_def login_token_step_def Let_def logged_def Token_create_doc_def
        split: option.splits)

text \<open>The witness runs both branches: the creation, and the overwrite of a Token found.\<close>

theorem login_user_vanished_witness:
  "\<not> falsy (lb_email sample_login) \<and> \<not> falsy (lb_password sample_login)
   \<and> \<not> lv_error (validateLogin (sample_env ''tok1'' 1000)
                    (sample_login\<lparr>lb_email := map_option toLowerCase (lb_email sample_login)\<rparr>))
   \<and> \<not> falsy (Some ''tok1'')
   \<and> Token_findOne_by_userId (tokens vanished_state) ''u1'' = None
   \<and> User_find_by_id (users vanished_state) ''u1'' = None
   \<and> fst (login (sample_env ''tok1'' 1000) vanished_state sample_login) =
       ErrorResponse ''User not found'' 404 []
   \<and> tokens (snd (login (sample_env ''tok1'' 1000) vanished_state sample_login)) =
       [\<lparr>t_userId = None, t_user = Some ''u1'', t_token = Some ''tok1'',
         t_expiresAt = Some 3601000\<rparr>]
   \<and> oplog (snd (login (sample_env ''tok1'' 1000) vanished_state sample_login)) =
       [Svc_validateLogin, Token_findOne_userId ''u1'', Token_create, User_findOne_id ''u1'']
   \<and> Token_findOne_by_userId (tokens vanished_state_reset) ''u1'' = Some 0
   \<and> User_find_by_id (users vanished_state_reset) ''u1'' = None
   \<and> fst (login (sample_env ''tok1'' 1000) vanished_state_reset sample_login) =
       ErrorResponse ''User not found'' 404 []
   \<and> tokens (snd (login (sample_env ''tok1'' 1000) vanished_state_reset sample_login)) =
       [\<lparr>t_userId = Some ''u1'', t_user = None, t_token = Some ''tok1'',
         t_expiresAt = None\<rparr>]
   \<and> oplog (snd (login (sample_env ''tok1'' 1000) vanished_state_reset sample_login)) =
       [Svc_validateLogin, Token_findOne_userId ''u1'', Token_save 0, User_findOne_id ''u1'']"
  using login_user_vanished
          [of sample_login _ "sample_env ''tok1'' 1000" vanished_state, OF _ _ refl]
        login_user_vanished
          [of sample_login _ "sample_env ''tok1'' 1000" vanished_state_reset, OF _ _ refl]
  by (simp add: sample_defs falsy_def toLowerCase_def toLowerCase_char_def
        Token_findOne_by_userId_def User_find_by_id_def)

section \<open>Login: one Token per user\<close>

text \<open>
  The Token that \<^verbatim>\<open>login\<close> creates carries the owner under \<^verbatim>\<open>user\<close>, and the lookup that
  precedes it filters on \<^verbatim>\<open>userId\<close>. A lookup that found nothing therefore finds nothing
  after the creation either, and every further validated login of the user appends one
  more Token.
\<close>

lemma login_create_branch:
  assumes "login_validated_for uid (e, body)"
      and "Token_findOne_by_userId (tokens st) uid = None"
  shows "tokens (snd (login e st body)) =
           tokens st @ [\<lparr>t_userId = None, t_user = Some uid,
                         t_token = d_token (lv_data (validateLogin e
                            (body\<lparr>lb_email := map_option toLowerCase (lb_email body)\<rparr>))),
                         t_expiresAt = Some (Date_now e + 3600 * 1000)\<rparr>]"
  using assms
  by (auto simp: login_validated_for_def login_def login_token_step_def Let_def logged_def
        Token_create_doc_def split: option.splits)

lemma login_create_branch_still_not_found:
  assumes "login_validated_for uid (e, body)"
      and "Token_findOne_by_userId (tokens st) uid = None"
  shows "Token_findOne_by_userId (tokens (snd (login e st body))) uid = None"
  using assms(2) unfolding login_create_branch [OF assms]
  by (simp add: Token_findOne_by_userId_def find_index_of_snoc_None)

lemma login_all_token_count:
  assumes "\<forall>r \<in> set rs. login_validated_for uid r"
      and "Token_findOne_by_userId (tokens st) uid = None"
  shows "length (tokens_of uid (tokens (login_all st rs))) =
           length (tokens_of uid (tokens st)) + length rs"
  using assms
proof (induction rs arbitrary: st)
  case Nil
  then show ?case by simp
next
  case (Cons r rs)
  obtain e body where r: "r = (e, body)" by (cases r)
  have v: "login_validated_for uid (e, body)" using Cons.prems(1) r by simp
  have nf: "Token_findOne_by_userId (tokens (snd (login e st body))) uid = None"
    by (rule login_create_branch_still_not_found [OF v Cons.prems(2)])
  have "length (tokens_of uid (tokens (login_all (snd (login e st body)) rs))) =
          length (tokens_of uid (tokens (snd (login e st body)))) + length rs"
    using Cons.IH [OF _ nf] Cons.prems(1) by simp
  moreover have "length (tokens_of uid (tokens (snd (login e st body)))) =
          Suc (length (tokens_of uid (tokens st)))"
    unfolding login_create_branch [OF v Cons.prems(2)] by (simp add: tokens_of_def)
  ultimately show ?case by (simp add: r)
qed

text \<open>
  Claim C1 says that after any number of consecutive successful logins of a user exactly
  one Token of that user exists, holding the most recently issued token. On the code the
  claim fails: two successful logins of the sample user, starting from an empty Token
  collection, both answer 200 and leave two Tokens of that user, the first still holding
  the token of the first login.
\<close>

theorem login_twice_two_tokens:
  "(let (r1, s1) = login (sample_env ''tok1'' 1000) sample_state sample_login;
        (r2, s2) = login (sample_env ''tok2'' 2000) s1 sample_login
    in status_code r1 = 200 \<and> status_code r2 = 200
       \<and> map t_token (tokens_of ''u1'' (tokens s2)) = [Some ''tok1'', Some ''tok2''])"
  by (simp add: handler_defs sample_defs)

section \<open>Register\<close>

text \<open>
  The duplicate check of the handler (lines 35 to 42) compares the stored emails with
  \<^verbatim>\<open>email\<close>, the value taken out of the body in line 23, before line 26 lower-cases
  \<^verbatim>\<open>req.body.email\<close>. When a stored user has exactly that value, the handler answers 403
  and neither calls \<^verbatim>\<open>createUser\<close> nor changes the users; when none has, it never answers
  403 itself and hands the value on to \<^verbatim>\<open>createUser\<close>.
\<close>

lemma register_same_email_conflict:
  assumes "\<not> v_error (validateRegister e
              (if \<not> falsy (rb_email body)
               then body\<lparr>rb_email := map_option toLowerCase (rb_email body)\<rparr> else body))"
      and "rb_email body \<in> u_email ` set (users st)"
  shows "fst (register e st body) =
           Inr (ErrorResponse ''Error'' 403 [''User already exists, use another email''])
         \<and> users (snd (register e st body)) = users st
         \<and> oplog (snd (register e st body)) =
             oplog st @ [Svc_validateRegister, User_findOne_email (rb_email body)]"
proof -
  have "User_findOne_by_email (users st) (rb_email body) \<noteq> None"
    using assms(2) by (auto simp: User_findOne_by_email_def find_None_iff)
  then obtain x where "User_findOne_by_email (users st) (rb_email body) = Some x"
    by blast
  with assms(1) show ?thesis
    by (simp add: register_def Let_def logged_def)
qed

lemma register_other_email_no_conflict:
  assumes "\<not> v_error (validateRegister e
              (if \<not> falsy (rb_email body)
               then body\<lparr>rb_email := map_option toLowerCase (rb_email body)\<rparr> else body))"
      and "rb_email body \<notin> u_email ` set (users st)"
  shows "fst (register e st body) \<noteq>
           Inr (ErrorResponse ''Error'' 403 [''User already exists, use another email''])
         \<and> oplog (snd (register e st body)) =
             oplog st @ [Svc_validateRegister, User_findOne_email (rb_email body),
                         Svc_createUser]"
proof -
  have "User_findOne_by_email (users st) (rb_email body) = None"
    using assms(2) by (force simp: User_findOne_by_email_def find_None_iff)
  with assms(1) show ?thesis
    by (simp add: register_def createUser_def Let_def logged_def split: sum.splits)
qed


section \<open>Forgot password\<close>

text \<open>
  Claim C3 says that every Token the authentication flows persist carries an expiry
  timestamp. The Token of a first login does (the clock plus one hour); the reset Token of
  \<^verbatim>\<open>forgotPassword\<close> is created from \<^verbatim>\<open>{ userId, token }\<close> alone, and on the code the claim
  fails for it: the flow answers 200 and the Token it stored has no \<^verbatim>\<open>expiresAt\<close>.
\<close>

theorem forgotPassword_token_without_expiry:
  "(let (r1, s1) = login (sample_env ''tok1'' 1000) sample_state sample_login;
        (r2, s2) = forgotPassword (sample_env ''rst1'' 2000) sample_state
                     \<lparr>fb_email = Some ''a@b.com''\<rparr>
    in status_code r1 = 200 \<and> map t_expiresAt (tokens s1) = [Some 3601000]
       \<and> status_code r2 = 200 \<and> map t_expiresAt (tokens s2) = [None])"
  by (simp add: handler_defs sample_defs)

text \<open>
  Claim C7. A forgot-password request whose email passes the format validation and is
  the email of no stored user is answered 404, and no Token is created: the collections
  are unchanged and the only call made is the user lookup.
\<close>

theorem forgotPassword_unknown_email:
  assumes "validateEmail e (fb_email body)"
      and "fb_email body \<notin> u_email ` set (users st)"
  shows "fst (forgotPassword e st body) =
           ErrorResponse ''Error'' 404 [''User with this email does not exist'']
         \<and> tokens (snd (forgotPassword e st body)) = tokens st
         \<and> users (snd (forgotPassword e st body)) = users st
         \<and> oplog (snd (forgotPassword e st body)) =
             oplog st @ [User_findOne_email (fb_email body)]"
proof -
  have "User_findOne_by_email (users st) (fb_email body) = None"
    using assms(2) by (force simp: User_findOne_by_email_def find_None_iff)
  with assms(1) show ?thesis
    by (simp add: forgotPassword_def Let_def logged_def)
qed

theorem forgotPassword_unknown_email_witness:
  "validateEmail (sample_env ''rst1'' 2000) (fb_email \<lparr>fb_email = Some ''x@y.com''\<rparr>)
   \<and> fb_email \<lparr>fb_email = Some ''x@y.com''\<rparr> \<notin> u_email ` set (users sample_state)
   \<and> fst (forgotPassword (sample_env ''rst1'' 2000) sample_state
            \<lparr>fb_email = Some ''x@y.com''\<rparr>) =
       ErrorResponse ''Error'' 404 [''User with this email does not exist'']
   \<and> tokens (snd (forgotPassword (sample_env ''rst1'' 2000) sample_state
                    \<lparr>fb_email = Some ''x@y.com''\<rparr>)) = []"
  using forgotPassword_unknown_email
          [of "sample_env ''rst1'' 2000" "\<lparr>fb_email = Some ''x@y.com''\<rparr>" sample_state]
  by (simp add: sample_defs)

text \<open>
  Claim C5. When the forgot-password flow reaches the email step and the mail service
  reports a failure, the handler forwards the service's code and message, and the Token
  created in the step before stays in the collection.
\<close>

theorem forgotPassword_mail_failure_keeps_token:
  assumes "validateEmail e (fb_email body)"
      and "User_findOne_by_email (users st) (fb_email body) = Some u"
      and "er_error (sendPasswordForgotEmail e (u_email u) (resetUrl_for e u))"
  shows "fst (forgotPassword e st body) =
           ErrorResponse ''Error''
             (er_code (sendPasswordForgotEmail e (u_email u) (resetUrl_for e u)))
             [er_message (sendPasswordForgotEmail e (u_email u) (resetUrl_for e u))]
         \<and> tokens (snd (forgotPassword e st body)) =
             tokens st @ [\<lparr>t_userId = Some (u_id u), t_user = None,
                           t_token = Some (resetToken_for e u), t_expiresAt = None\<rparr>]"
  using assms by (simp add: forgotPassword_def Let_def logged_def Token_create_doc_def)

theorem forgotPassword_mail_failure_keeps_token_witness:
  "validateEmail (sample_env_mail_down ''rst1'' 2000) (fb_email \<lparr>fb_email = Some ''a@b.com''\<rparr>)
   \<and> User_findOne_by_email (users sample_state) (fb_email \<lparr>fb_email = Some ''a@b.com''\<rparr>)
       = Some sample_user
   \<and> er_error (sendPasswordForgotEmail (sample_env_mail_down ''rst1'' 2000)
                 (u_email sample_user)
                 (resetUrl_for (sample_env_mail_down ''rst1'' 2000) sample_user))
   \<and> fst (forgotPassword (sample_env_mail_down ''rst1'' 2000) sample_state
            \<lparr>fb_email = Some ''a@b.com''\<rparr>) =
       ErrorResponse ''Error'' 502 [''mail service unavailable'']
   \<and> tokens (snd (forgotPassword (sample_env_mail_down ''rst1'' 2000) sample_state
                    \<lparr>fb_email = Some ''a@b.com''\<rparr>)) =
       [\<lparr>t_userId = Some ''u1'', t_user = None, t_token = Some ''rst1'',
         t_expiresAt = None\<rparr>]"
  using forgotPassword_mail_failure_keeps_token
          [of "sample_env_mail_down ''rst1'' 2000" "\<lparr>fb_email = Some ''a@b.com''\<rparr>"
              sample_state sample_user]
  by (simp add: sample_defs User_findOne_by_email_def resetToken_for_def)

section \<open>Change password\<close>

text \<open>
  Claim C4. For a change-password request of a stored user, when the old password does
  not match or the new password is refused by the acceptance policy, the handler answers
  400 with the message of the check that failed, and the stored users, passwords
  included, are unchanged. The policy is the collaborator \<open>checkPassword\<close>; the witness
  runs the policy of the spec on the spec's own example, a password without a digit.
\<close>

theorem changePassword_rejected:
  assumes "User_find_by_id (users st) userId = Some i"
      and "\<not> matchPassword e (users st ! i) (cb_oldPassword body)
           \<or> \<not> checkPassword e (cb_newPassword body)"
  shows "fst (changePassword e st userId body) =
           ErrorResponse
             (if \<not> matchPassword e (users st ! i) (cb_oldPassword body)
              then ''Old password is incorrect''
              else ''password must contain, 1 uppercase letter, one special character, one number and must be greater than 8 characters'')
             400 []
         \<and> users (snd (changePassword e st userId body)) = users st"
  using assms by (auto simp: changePassword_def Let_def logged_def)

theorem changePassword_rejected_witness:
  "User_find_by_id (users sample_state) ''u1'' = Some 0
   \<and> matchPassword (sample_env ''tok1'' 1000) (users sample_state ! 0) (Some ''Secret1!'')
   \<and> \<not> checkPassword (sample_env ''tok1'' 1000) (Some ''Abcdefgh!'')
   \<and> fst (changePassword (sample_env ''tok1'' 1000) sample_state ''u1''
            \<lparr>cb_oldPassword = Some ''Secret1!'', cb_newPassword = Some ''Abcdefgh!''\<rparr>) =
       ErrorResponse
         ''password must contain, 1 uppercase letter, one special character, one number and must be greater than 8 characters''
         400 []
   \<and> users (snd (changePassword (sample_env ''tok1'' 1000) sample_state ''u1''
                   \<lparr>cb_oldPassword = Some ''Secret1!'', cb_newPassword = Some ''Abcdefgh!''\<rparr>))
       = [sample_user]"
  using changePassword_rejected
          [of sample_state "''u1''" 0 "sample_env ''tok1'' 1000"
              "\<lparr>cb_oldPassword = Some ''Secret1!'', cb_newPassword = Some ''Abcdefgh!''\<rparr>"]
  by (simp add: sample_defs User_find_by_id_def falsy_def)

section \<open>Logout\<close>

text \<open>
  Claim C9. Every logout request is answered 200 with a success envelope, and the
  handler changes nothing and calls nothing: users, Tokens and the log of calls are the
  ones it was given.
\<close>

theorem logout_no_state_change:
  "fst (logout e st) =
     Json 200 \<lparr>e_error = False, e_errors = [], e_data = NoData,
               e_message = ''User logged out successfully.'', e_status = 200\<rparr>
   \<and> status_code (fst (logout e st)) = 200
   \<and> users (snd (logout e st)) = users st
   \<and> tokens (snd (logout e st)) = tokens st
   \<and> oplog (snd (logout e st)) = oplog st"
  by (simp add: logout_def)

end
